theory Spec2Isabelle
  imports Complex_Main "HOL-Library.Multiset" "HOL-Library.Char_ord" "HOL-Library.List_Lexorder"
begin

section \<open>Strings and regular-expression scans\<close>

text \<open>
  Python strings are modelled as \<^typ>\<open>string\<close>, a list of 8-bit characters; a character
  outside ASCII stands as its UTF-8 bytes. The character classes \<open>\d\<close> and \<open>\w\<close> are
  modelled on ASCII. \<open>int\<close> of a digit string is the unbounded Python integer.
\<close>

datatype error = AttributeError | KeyError | ValueError | TypeError | ZeroDivisionError | FetchError

definition is_digit :: "char \<Rightarrow> bool" where
  "is_digit c \<longleftrightarrow> CHR ''0'' \<le> c \<and> c \<le> CHR ''9''"

definition is_word_char :: "char \<Rightarrow> bool" where
  "is_word_char c \<longleftrightarrow>
     (CHR ''a'' \<le> c \<and> c \<le> CHR ''z'') \<or> (CHR ''A'' \<le> c \<and> c \<le> CHR ''Z'') \<or>
     is_digit c \<or> c = CHR ''_''"

definition to_lower :: "char \<Rightarrow> char" where
  "to_lower c = (if CHR ''A'' \<le> c \<and> c \<le> CHR ''Z'' then char_of (of_char c + (32::nat)) else c)"

text \<open>
  \<open>re.findall\<close> for a pattern \<open>P+\<close> over a character class \<open>P\<close>: the scan moves to the
  next position where the pattern matches, takes the greedy match there, and goes on
  behind it.
\<close>

function findall_runs :: "(char \<Rightarrow> bool) \<Rightarrow> string \<Rightarrow> string list" where
  "findall_runs P s =
     (case dropWhile (\<lambda>c. \<not> P c) s of
        [] \<Rightarrow> []
      | c # t \<Rightarrow> takeWhile P (c # t) # findall_runs P (dropWhile P (c # t)))"
  by pat_completeness auto
termination
proof (relation "measure (\<lambda>(P, s). length s)")
  show "wf (measure (\<lambda>(P, s). length s))" by simp
next
  fix P :: "char \<Rightarrow> bool" and s :: string and c t
  assume eq: "dropWhile (\<lambda>c. \<not> P c) s = c # t"
  have "P c"
    using hd_dropWhile [of "\<lambda>c. \<not> P c" s] eq by simp
  then have "length (dropWhile P (c # t)) \<le> length t"
    by (simp add: length_dropWhile_le)
  moreover have "length (c # t) \<le> length s"
    using length_dropWhile_le [of "\<lambda>c. \<not> P c" s] eq by simp
  ultimately show "((P, dropWhile P (c # t)), (P, s)) \<in> measure (\<lambda>(P, s). length s)"
    by simp
qed

declare findall_runs.simps [simp del]

text \<open>\<open>re.findall(r"\d+", s)\<close>\<close>

definition findall_digits :: "string \<Rightarrow> string list" where
  "findall_digits s = findall_runs is_digit s"

text \<open>
  \<open>re.findall(r"(?u)\b\w\w+\b", s)\<close>, the token pattern of the vectorizer: a match
  starts at a word boundary, takes the whole run of word characters and needs two of
  them, so the matches are the maximal runs of word characters of length two or more.
\<close>

definition findall_tokens :: "string \<Rightarrow> string list" where
  "findall_tokens s = filter (\<lambda>w. 2 \<le> length w) (findall_runs is_word_char s)"

section \<open>Salary parsing (\<open>parse_salary\<close>, recommendation.py lines 51-59)\<close>

text \<open>\<open>salary_range.replace(",", "")\<close>: every comma is removed.\<close>

definition replace_comma :: "string \<Rightarrow> string" where
  "replace_comma s = filter (\<lambda>c. c \<noteq> CHR '','') s"

definition digit_val :: "char \<Rightarrow> int" where
  "digit_val c = int (of_char c) - 48"

text \<open>\<open>int(run)\<close> for a run of decimal digits.\<close>

definition py_int :: "string \<Rightarrow> int" where
  "py_int ds = foldl (\<lambda>acc c. 10 * acc + digit_val c) 0 ds"

text \<open>
  The body of the \<open>try\<close> block. The argument is a cell of the \<open>salary_range\<close> column:
  a string, or \<open>None\<close>, on which \<open>.replace\<close> raises \<open>AttributeError\<close>. The conditional
  expression binds tighter than the comma, so the second component alone is conditional.
\<close>

definition parse_salary_try :: "string option \<Rightarrow> error + (int option \<times> int option)" where
  "parse_salary_try salary_range =
     (case salary_range of
        None \<Rightarrow> Inl AttributeError
      | Some s \<Rightarrow>
          (let m = findall_digits (replace_comma s) in
           if m \<noteq> [] then
             Inr (Some (py_int (m ! 0)),
                  (if length m > 1 then Some (py_int (last m)) else Some (py_int (m ! 0))))
           else Inr (None, None)))"

text \<open>The bare \<open>except\<close> turns every exception into \<open>(None, None)\<close>.\<close>

definition parse_salary :: "string option \<Rightarrow> int option \<times> int option" where
  "parse_salary salary_range =
     (case parse_salary_try salary_range of Inl e \<Rightarrow> (None, None) | Inr r \<Rightarrow> r)"



text \<open>The pound sign, U+00A3, in UTF-8.\<close>

definition pound :: string where
  "pound = [CHR 0xC2, CHR 0xA3]"

section \<open>Loading (\<open>load_data\<close>, recommendation.py lines 62-72)\<close>

text \<open>
  A row of the table \<open>job_opportunities\<close> as \<open>fetch_data\<close> returns it: text columns, of
  which \<open>required_skills\<close> and \<open>salary_range\<close> may be NULL (Python \<open>None\<close>).
  \<open>load_data\<close> adds the columns \<open>salary_min\<close> and \<open>salary_max\<close>. The rows of a data
  frame are a list, in the frame's order.
\<close>

record raw_job =
  job_title :: string
  location :: string
  experience_level :: string
  required_skills :: "string option"
  salary_range :: "string option"

record job = raw_job +
  salary_min :: "int option"
  salary_max :: "int option"

text \<open>\<open>df.dropna(subset=['required_skills', 'salary_range'])\<close>\<close>

definition dropna :: "raw_job list \<Rightarrow> raw_job list" where
  "dropna df = filter (\<lambda>r. required_skills r \<noteq> None \<and> salary_range r \<noteq> None) df"

definition with_salary :: "raw_job \<Rightarrow> job" where
  "with_salary r =
     \<lparr>job_title = job_title r, location = location r,
      experience_level = experience_level r, required_skills = required_skills r,
      salary_range = salary_range r,
      salary_min = fst (parse_salary (salary_range r)),
      salary_max = snd (parse_salary (salary_range r))\<rparr>"

text \<open>
  The argument is what \<open>fetch_data()\<close> does: it raises, or returns the rows. Every
  exception inside \<open>load_data\<close> is caught and gives the empty frame: that of
  \<open>fetch_data\<close>, the \<open>KeyError\<close> of \<open>dropna\<close> on a frame built from no rows (it has no
  columns), and the \<open>ValueError\<close> of unpacking \<open>zip()\<close> of nothing when no row is left.
\<close>

definition load_data :: "error + raw_job list \<Rightarrow> job list" where
  "load_data fetched =
     (case fetched of
        Inl e \<Rightarrow> []
      | Inr data \<Rightarrow>
          if data = [] then []
          else (let df = dropna data in
                if df = [] then [] else map with_salary df))"

section \<open>Floating-point cells\<close>

text \<open>
  A float64 cell of a pandas column. Finite values are idealised as reals (no rounding,
  no overflow, one zero); the special values are explicit, since the code relies on
  what numpy does with them: division by zero raises nothing and gives an infinity or
  NaN, and NaN spreads through every operation.
\<close>

datatype float64 = Num real | PosInf | NegInf | NaN

fun fneg :: "float64 \<Rightarrow> float64" where
  "fneg (Num a) = Num (- a)"
| "fneg PosInf = NegInf"
| "fneg NegInf = PosInf"
| "fneg NaN = NaN"

fun fadd :: "float64 \<Rightarrow> float64 \<Rightarrow> float64" where
  "fadd (Num a) (Num b) = Num (a + b)"
| "fadd NaN y = NaN"
| "fadd x NaN = NaN"
| "fadd PosInf NegInf = NaN"
| "fadd NegInf PosInf = NaN"
| "fadd PosInf y = PosInf"
| "fadd x PosInf = PosInf"
| "fadd NegInf y = NegInf"
| "fadd x NegInf = NegInf"

definition fsub :: "float64 \<Rightarrow> float64 \<Rightarrow> float64" where
  "fsub x y = fadd x (fneg y)"

fun fmul :: "float64 \<Rightarrow> float64 \<Rightarrow> float64" where
  "fmul (Num a) (Num b) = Num (a * b)"
| "fmul NaN y = NaN"
| "fmul x NaN = NaN"
| "fmul (Num a) PosInf = (if a = 0 then NaN else if 0 < a then PosInf else NegInf)"
| "fmul (Num a) NegInf = (if a = 0 then NaN else if 0 < a then NegInf else PosInf)"
| "fmul PosInf (Num b) = (if b = 0 then NaN else if 0 < b then PosInf else NegInf)"
| "fmul NegInf (Num b) = (if b = 0 then NaN else if 0 < b then NegInf else PosInf)"
| "fmul PosInf PosInf = PosInf"
| "fmul NegInf NegInf = PosInf"
| "fmul PosInf NegInf = NegInf"
| "fmul NegInf PosInf = NegInf"

fun fdiv :: "float64 \<Rightarrow> float64 \<Rightarrow> float64" where
  "fdiv (Num a) (Num b) =
     (if b \<noteq> 0 then Num (a / b)
      else if a = 0 then NaN else if 0 < a then PosInf else NegInf)"
| "fdiv NaN y = NaN"
| "fdiv x NaN = NaN"
| "fdiv (Num a) y = Num 0"
| "fdiv PosInf (Num b) = (if 0 \<le> b then PosInf else NegInf)"
| "fdiv NegInf (Num b) = (if 0 \<le> b then NegInf else PosInf)"
| "fdiv x y = NaN"

text \<open>
  The order in which numpy sorts float64 values: increasing, the infinities at the two
  ends of the numbers, NaN behind everything.
\<close>

fun sort_class :: "float64 \<Rightarrow> nat" where
  "sort_class NegInf = 0"
| "sort_class (Num a) = 1"
| "sort_class PosInf = 2"
| "sort_class NaN = 3"

fun sort_val :: "float64 \<Rightarrow> real" where
  "sort_val (Num a) = a"
| "sort_val x = 0"

instantiation float64 :: linorder
begin

definition less_eq_float64 :: "float64 \<Rightarrow> float64 \<Rightarrow> bool" where
  "less_eq_float64 x y \<longleftrightarrow>
     sort_class x < sort_class y \<or> (sort_class x = sort_class y \<and> sort_val x \<le> sort_val y)"

definition less_float64 :: "float64 \<Rightarrow> float64 \<Rightarrow> bool" where
  "less_float64 x y \<longleftrightarrow>
     sort_class x < sort_class y \<or> (sort_class x = sort_class y \<and> sort_val x < sort_val y)"

instance
proof
  fix x y z :: float64
  show "(x < y) = (x \<le> y \<and> \<not> y \<le> x)"
    by (auto simp: less_eq_float64_def less_float64_def)
  show "x \<le> x"
    by (simp add: less_eq_float64_def)
  show "x \<le> y \<Longrightarrow> y \<le> z \<Longrightarrow> x \<le> z"
    by (auto simp: less_eq_float64_def)
  show "x \<le> y \<Longrightarrow> y \<le> x \<Longrightarrow> x = y"
    by (cases x; cases y) (auto simp: less_eq_float64_def)
  show "x \<le> y \<or> y \<le> x"
    by (auto simp: less_eq_float64_def)
qed

end

section \<open>The vectorizer (\<open>TfidfVectorizer(stop_words='english')\<close>) and cosine similarity\<close>

text \<open>
  A fitted vectorizer: its stop-word list, its vocabulary (the feature names, in feature
  order) and the inverse document frequency of each feature. The other settings are
  sklearn's defaults: lower-casing, the token pattern above, raw term counts, smoothed
  idf, L2 normalisation of every row.
\<close>

record vectorizer =
  stop_words :: "string list"
  vocabulary :: "string list"
  idf :: "real list"

text \<open>The analyzer: lower-case, tokenise, drop the stop words.\<close>

definition analyze :: "string list \<Rightarrow> string \<Rightarrow> string list" where
  "analyze stop doc = filter (\<lambda>t. t \<notin> set stop) (findall_tokens (map to_lower doc))"

definition l2_norm :: "real list \<Rightarrow> real" where
  "l2_norm v = sqrt (sum_list (map (\<lambda>x. x * x) v))"

text \<open>
  sklearn's \<open>normalize\<close>: a row is divided by its L2 norm; a row of norm zero is left as
  it is (its norm is replaced by 1), so nothing divides by zero.
\<close>

definition normalize :: "real list \<Rightarrow> real list" where
  "normalize v = (let n = l2_norm v in if n = 0 then v else map (\<lambda>x. x / n) v)"

text \<open>
  \<open>vectorizer.transform\<close> of one document: the count of each vocabulary term among the
  document's tokens, times the term's idf, then normalised. Tokens outside the
  vocabulary are ignored; the vectorizer is only read.
\<close>

definition tfidf_row :: "vectorizer \<Rightarrow> string \<Rightarrow> real list" where
  "tfidf_row vec doc =
     map (\<lambda>(t, w). real (count_list (analyze (stop_words vec) doc) t) * w)
       (zip (vocabulary vec) (idf vec))"

definition transform :: "vectorizer \<Rightarrow> string \<Rightarrow> real list" where
  "transform vec doc = normalize (tfidf_row vec doc)"

definition dot :: "real list \<Rightarrow> real list \<Rightarrow> real" where
  "dot u v = sum_list (map (\<lambda>(a, b). a * b) (zip u v))"

text \<open>
  \<open>cosine_similarity(X, Y).flatten()\<close> for a one-row \<open>X\<close>: both sides are normalised
  (again), then multiplied; one entry per row of \<open>Y\<close>, in order.
\<close>

definition cosine_similarity :: "real list \<Rightarrow> real list list \<Rightarrow> real list" where
  "cosine_similarity x ys = map (\<lambda>y. dot (normalize x) (normalize y)) ys"

text \<open>
  Lines 82-84 of \<open>enhanced_recommendations\<close>. sklearn refuses a vectorizer with an empty
  vocabulary and a matrix with no row by raising \<open>ValueError\<close>.
\<close>

definition skill_scores :: "vectorizer \<Rightarrow> string \<Rightarrow> string list \<Rightarrow> error + real list" where
  "skill_scores vec user_skills docs =
     (if vocabulary vec = [] \<or> docs = [] then Inl ValueError
      else Inr (cosine_similarity (transform vec user_skills) (map (transform vec) docs)))"

text \<open>
  \<open>get_vectorizer\<close> (lines 74-77): \<open>fit\<close> over the \<open>required_skills\<close> column of the frame
  it is given. The vocabulary is the sorted set of tokens; a term in \<open>d\<close> of the \<open>n\<close>
  documents has idf \<open>ln ((1 + n) / (1 + d)) + 1\<close>. An empty column or an empty vocabulary
  raises \<open>ValueError\<close>, a \<open>None\<close> document \<open>AttributeError\<close>. The stop-word list
  \<open>'english'\<close> is a table of sklearn and a parameter here.
\<close>

definition doc_freq :: "string list list \<Rightarrow> string \<Rightarrow> nat" where
  "doc_freq tokenized t = length (filter (\<lambda>d. t \<in> set d) tokenized)"

definition fit :: "string list \<Rightarrow> string list \<Rightarrow> error + vectorizer" where
  "fit english docs =
     (let tokenized = map (analyze english) docs;
          vocab = sort (remdups (concat tokenized))
      in if vocab = [] then Inl ValueError
         else Inr \<lparr>stop_words = english, vocabulary = vocab,
                   idf = map (\<lambda>t. ln ((1 + real (length docs)) / (1 + real (doc_freq tokenized t))) + 1) vocab\<rparr>)"

definition get_vectorizer :: "string list \<Rightarrow> job list \<Rightarrow> error + vectorizer" where
  "get_vectorizer english df =
     (case those (map required_skills df) of
        None \<Rightarrow> Inl AttributeError
      | Some docs \<Rightarrow> fit english docs)"

section \<open>Scoring and ranking (\<open>enhanced_recommendations\<close>, lines 80-94)\<close>

text \<open>
  The \<open>salary_min\<close> column holds integers and nulls. \<open>min()\<close> and \<open>max()\<close> skip the nulls
  and are NaN when nothing is left; a null cell is NaN in the arithmetic.
\<close>

definition to_float :: "int option \<Rightarrow> float64" where
  "to_float c = (case c of None \<Rightarrow> NaN | Some k \<Rightarrow> Num (real_of_int k))"

definition column_min :: "int option list \<Rightarrow> float64" where
  "column_min col =
     (case map the (filter (\<lambda>c. c \<noteq> None) col) of
        [] \<Rightarrow> NaN
      | k # ks \<Rightarrow> Num (real_of_int (fold min ks k)))"

definition column_max :: "int option list \<Rightarrow> float64" where
  "column_max col =
     (case map the (filter (\<lambda>c. c \<noteq> None) col) of
        [] \<Rightarrow> NaN
      | k # ks \<Rightarrow> Num (real_of_int (fold max ks k)))"

text \<open>Lines 87-88: \<open>(salary_min - min) / (max - min)\<close>, cell by cell.\<close>

definition salary_scores :: "int option list \<Rightarrow> float64 list" where
  "salary_scores col =
     (let lo = column_min col; hi = column_max col
      in map (\<lambda>c. fdiv (fsub (to_float c) lo) (fsub hi lo)) col)"

record weights =
  skills :: real
  salary :: real

text \<open>Lines 91-92: the weighted sum, cell by cell.\<close>

definition match_scores :: "weights \<Rightarrow> real list \<Rightarrow> float64 list \<Rightarrow> float64 list" where
  "match_scores w skill_score salary_score =
     map (\<lambda>(s, x). fadd (fmul (Num (skills w)) (Num s)) (fmul (Num (salary w)) x))
       (zip skill_score salary_score)"

text \<open>
  Line 94, \<open>df.sort_values('match_score', ascending=False)\<close>, with pandas' defaults
  \<open>kind='quicksort'\<close> and \<open>na_position='last'\<close>. pandas computes the order of the rows
  (\<open>nargsort\<close>): the NaN cells are set aside, the others are reversed, sorted
  increasingly by numpy's \<open>argsort\<close> of the requested kind, and reversed back; the NaN
  rows follow in their own order. numpy's \<open>argsort\<close> is a parameter: it maps an array
  without NaN to the list of its positions in increasing order of the values.
\<close>

definition non_nan_idx :: "float64 list \<Rightarrow> nat list" where
  "non_nan_idx items = filter (\<lambda>i. items ! i \<noteq> NaN) [0..<length items]"

definition nan_idx :: "float64 list \<Rightarrow> nat list" where
  "nan_idx items = filter (\<lambda>i. items ! i = NaN) [0..<length items]"

definition nargsort_desc :: "(float64 list \<Rightarrow> nat list) \<Rightarrow> float64 list \<Rightarrow> nat list" where
  "nargsort_desc argsort items =
     (let r_non_nans = rev (map (\<lambda>i. items ! i) (non_nan_idx items));
          r_idx = rev (non_nan_idx items);
          indexer = rev (map (\<lambda>p. r_idx ! p) (argsort r_non_nans))
      in indexer @ nan_idx items)"

text \<open>Lines 90-94 together: the match scores and the order of the rows.\<close>

definition rank :: "(float64 list \<Rightarrow> nat list) \<Rightarrow> weights \<Rightarrow> real list \<Rightarrow> float64 list \<Rightarrow>
    float64 list \<times> nat list" where
  "rank argsort w skill_score salary_score =
     (let ms = match_scores w skill_score salary_score in (ms, nargsort_desc argsort ms))"



text \<open>Two sorts that meet the documentation: one keeps equal values in order, one reverses them.\<close>

definition stable_argsort :: "float64 list \<Rightarrow> nat list" where
  "stable_argsort xs = sort_key (\<lambda>i. xs ! i) [0..<length xs]"


section \<open>Objects and the pass\<close>

text \<open>
  A data frame object: its rows and the two columns the pass adds (absent until then).
  Frames and vectorizers are objects in a store; a reference is a position in it, and a
  new object is put behind the others.
\<close>

record frame =
  rows :: "job list"
  salary_score :: "float64 list option"
  match_score :: "float64 list option"

datatype obj = Frame frame | Vectorizer vectorizer

type_synonym heap = "obj list"

definition alloc :: "heap \<Rightarrow> obj \<Rightarrow> nat \<times> heap" where
  "alloc h ob = (length h, h @ [ob])"

definition lookup :: "heap \<Rightarrow> nat \<Rightarrow> obj option" where
  "lookup h a = (if a < length h then Some (h ! a) else None)"

definition new_frame :: "job list \<Rightarrow> frame" where
  "new_frame rs = \<lparr>rows = rs, salary_score = None, match_score = None\<rparr>"

text \<open>The frame of the rows at the given positions, in that order.\<close>

definition take_rows :: "nat list \<Rightarrow> frame \<Rightarrow> frame" where
  "take_rows ix f =
     \<lparr>rows = map (\<lambda>i. rows f ! i) ix,
      salary_score = map_option (\<lambda>c. map (\<lambda>i. c ! i) ix) (salary_score f),
      match_score = map_option (\<lambda>c. map (\<lambda>i. c ! i) ix) (match_score f)\<rparr>"

text \<open>
  \<open>enhanced_recommendations(user_skills, df, vectorizer, weights)\<close>. The two column
  assignments write into the frame object \<open>df\<close> refers to; \<open>sort_values\<close> returns a new
  frame. An exception leaves the store as it is, since lines 82-84 write nothing.
\<close>

definition enhanced_recommendations ::
  "(float64 list \<Rightarrow> nat list) \<Rightarrow> heap \<Rightarrow> string \<Rightarrow> nat \<Rightarrow> nat \<Rightarrow> weights \<Rightarrow> (error + nat) \<times> heap" where
  "enhanced_recommendations argsort h user_skills df vectorizer w =
     (case (lookup h df, lookup h vectorizer) of
        (Some (Frame f), Some (Vectorizer vec)) \<Rightarrow>
          (case those (map required_skills (rows f)) of
             None \<Rightarrow> (Inl AttributeError, h)
           | Some docs \<Rightarrow>
               (case skill_scores vec user_skills docs of
                  Inl e \<Rightarrow> (Inl e, h)
                | Inr sk \<Rightarrow>
                    (let sal = salary_scores (map salary_min (rows f));
                         f1 = f\<lparr>salary_score := Some sal\<rparr>;
                         (ms, ix) = rank argsort w sk sal;
                         f2 = f1\<lparr>match_score := Some ms\<rparr>;
                         (res, h') = alloc (h[df := Frame f2]) (Frame (take_rows ix f2))
                     in (Inr res, h'))))
      | _ \<Rightarrow> (Inl TypeError, h))"

section \<open>The page (\<open>recommendation_page\<close>, lines 139-181)\<close>

text \<open>
  Lines 174-178. \<open>filtered_df\<close> starts as a copy of \<open>df\<close>, and each filter that applies
  makes a new frame of the rows it keeps.
\<close>

definition filter_location :: "string \<Rightarrow> job list \<Rightarrow> job list" where
  "filter_location selected_location df =
     (if selected_location \<noteq> ''All'' then filter (\<lambda>r. location r = selected_location) df else df)"

definition filter_experience :: "string list \<Rightarrow> job list \<Rightarrow> job list" where
  "filter_experience experience_levels df =
     (if experience_levels \<noteq> [] then filter (\<lambda>r. experience_level r \<in> set experience_levels) df
      else df)"

definition filtered_rows :: "string \<Rightarrow> string list \<Rightarrow> job list \<Rightarrow> job list" where
  "filtered_rows selected_location experience_levels df =
     filter_experience experience_levels (filter_location selected_location df)"

datatype outcome = NoData | NoSkills | Failed error | Shown nat

text \<open>
  Lines 139-180: the loaded frame \<open>df\<close>, the frame \<open>filtered_df\<close> (the copy, filtered;
  the frames in between are dropped) and the vectorizer become objects of the store.
  The result is the store with the references to the three. \<open>st.cache_resource\<close> and
  \<open>st.cache_data\<close> return what the call would compute.
\<close>

definition page_setup ::
  "string list \<Rightarrow> heap \<Rightarrow> job list \<Rightarrow> string \<Rightarrow> string list \<Rightarrow> error + (heap \<times> nat \<times> nat \<times> nat)" where
  "page_setup english h loaded selected_location experience_levels =
     (let (df, h1) = alloc h (Frame (new_frame loaded));
          (filtered_df, h2) =
             alloc h1 (Frame (new_frame (filtered_rows selected_location experience_levels loaded)))
      in case get_vectorizer english loaded of
           Inl e \<Rightarrow> Inl e
         | Inr vec \<Rightarrow>
             (let (vectorizer, h3) = alloc h2 (Vectorizer vec)
              in Inr (h3, df, filtered_df, vectorizer)))"

definition recommendation_page ::
  "(float64 list \<Rightarrow> nat list) \<Rightarrow> string list \<Rightarrow> heap \<Rightarrow> error + raw_job list \<Rightarrow> weights \<Rightarrow>
     string \<Rightarrow> string list \<Rightarrow> string \<Rightarrow> outcome \<times> heap" where
  "recommendation_page argsort english h fetched w selected_location experience_levels user_skills =
     (let loaded = load_data fetched in
      if loaded = [] then (NoData, h)
      else if user_skills = [] then (NoSkills, h)
      else
        (case page_setup english h loaded selected_location experience_levels of
           Inl e \<Rightarrow> (Failed e, h)
         | Inr (h3, df, filtered_df, vectorizer) \<Rightarrow>
             (case enhanced_recommendations argsort h3 user_skills filtered_df vectorizer w of
                (Inl e, h4) \<Rightarrow> (Failed e, h4)
              | (Inr res, h4) \<Rightarrow> (Shown res, h4))))"

text \<open>What a page holds, for the statements below: the vocabulary of its vectorizer
  object and the \<open>required_skills\<close> column of its filtered frame.\<close>

definition fitted_vocabulary :: "error + vectorizer \<Rightarrow> string list option" where
  "fitted_vocabulary r = (case r of Inl e \<Rightarrow> None | Inr vec \<Rightarrow> Some (vocabulary vec))"

definition page_vocabulary :: "error + (heap \<times> nat \<times> nat \<times> nat) \<Rightarrow> string list option" where
  "page_vocabulary r =
     (case r of
        Inl e \<Rightarrow> None
      | Inr (h, df, filtered_df, vectorizer) \<Rightarrow>
          (case lookup h vectorizer of
             Some (Vectorizer vec) \<Rightarrow> Some (vocabulary vec)
           | _ \<Rightarrow> None))"

definition page_corpus :: "error + (heap \<times> nat \<times> nat \<times> nat) \<Rightarrow> string option list option" where
  "page_corpus r =
     (case r of
        Inl e \<Rightarrow> None
      | Inr (h, df, filtered_df, vectorizer) \<Rightarrow>
          (case lookup h filtered_df of
             Some (Frame f) \<Rightarrow> Some (map required_skills (rows f))
           | _ \<Rightarrow> None))"

section \<open>Example data\<close>

definition job_a :: raw_job where
  "job_a = \<lparr>job_title = ''Data Analyst'', location = ''London'', experience_level = ''Junior'',
     required_skills = Some ''python, sql'', salary_range = Some ''Competitive''\<rparr>"

definition job_b :: raw_job where
  "job_b = \<lparr>job_title = ''Java Developer'', location = ''Leeds'', experience_level = ''Senior'',
     required_skills = Some ''java, spring'',
     salary_range = Some (pound @ ''40,000 - '' @ pound @ ''60,000'')\<rparr>"

definition job_c :: raw_job where
  "job_c = \<lparr>job_title = ''Data Scientist'', location = ''London'', experience_level = ''Senior'',
     required_skills = Some ''python, pandas'',
     salary_range = Some (''Up to '' @ pound @ ''50,000'')\<rparr>"

definition weights_0 :: weights where
  "weights_0 = \<lparr>skills = 7 / 10, salary = 3 / 10\<rparr>"

definition vectorizer_0 :: vectorizer where
  "vectorizer_0 = \<lparr>stop_words = [''and''], vocabulary = [''java'', ''python''], idf = [1, 1]\<rparr>"

definition heap_0 :: heap where
  "heap_0 = [Frame (new_frame (load_data (Inr [job_b, job_c]))), Vectorizer vectorizer_0]"

lemmas eval_defs = parse_salary_def parse_salary_try_def findall_digits_def findall_runs.simps
  replace_comma_def is_digit_def py_int_def digit_val_def pound_def Let_def

section \<open>Properties of salary parsing\<close>








text \<open>
  Claim C10. Salary parsing imposes no order on the pair it returns: on
  \<open>"60,000 - 40,000"\<close> the first run exceeds the last, and the minimum returned is
  greater than the maximum.
\<close>

theorem parse_salary_unordered:
  "parse_salary (Some ''60,000 - 40,000'') = (Some 60000, Some 40000) \<and>
   (\<exists>s lo hi. parse_salary (Some s) = (Some lo, Some hi) \<and> hi < lo)"
proof -
  have e: "parse_salary (Some ''60,000 - 40,000'') = (Some 60000, Some 40000)"
    by (simp add: eval_defs)
  then have "parse_salary (Some ''60,000 - 40,000'') = (Some 60000, Some 40000) \<and> (40000::int) < 60000"
    by simp
  then show ?thesis
    by blast
qed

section \<open>Loading\<close>








section \<open>Salary normalisation\<close>

lemma fold_min_Min: "fold min ks (k::int) = Min (set (k # ks))"
  by (rule Min.set_eq_fold [symmetric])

lemma fold_max_Max: "fold max ks (k::int) = Max (set (k # ks))"
  by (rule Max.set_eq_fold [symmetric])

lemma fdiv_NaN_left [simp]: "fdiv NaN y = NaN"
  by (cases y) simp_all

lemma fsub_NaN_left [simp]: "fsub NaN y = NaN"
  by (cases y) (simp_all add: fsub_def)

lemma fsub_NaN_right [simp]: "fsub x NaN = NaN"
  by (cases x) (simp_all add: fsub_def)

lemma fsub_Num [simp]: "fsub (Num a) (Num b) = Num (a - b)"
  by (simp add: fsub_def)

text \<open>
  Claim C2, as the code has it. When the maximum of the \<open>salary_min\<close> column equals its
  minimum, lines 87-88 divide zero by zero in floating point: nothing is raised, and
  every \<open>salary_score\<close> is NaN.
\<close>

theorem salary_scores_degenerate:
  assumes "column_max col = column_min col"
  shows "salary_scores col = map (\<lambda>c. NaN) col"
proof (cases "map the (filter (\<lambda>c. c \<noteq> None) col)")
  case Nil
  then have "column_min col = NaN"
    by (simp add: column_min_def)
  then show ?thesis
    by (simp add: salary_scores_def Let_def)
next
  case (Cons k ks)
  let ?S = "set (k # ks)"
  have lo: "column_min col = Num (real_of_int (Min ?S))"
    using Cons by (simp add: column_min_def fold_min_Min)
  have hi: "column_max col = Num (real_of_int (Max ?S))"
    using Cons by (simp add: column_max_def fold_max_Max)
  have eq: "Max ?S = Min ?S"
    using assms lo hi by simp
  have cell: "fdiv (fsub (to_float c) (column_min col)) (fsub (column_max col) (column_min col)) = NaN"
    if "c \<in> set col" for c
  proof (cases c)
    case None
    then show ?thesis by (simp add: to_float_def)
  next
    case (Some x)
    then have "Some x \<in> set (filter (\<lambda>c. c \<noteq> None) col)"
      using that by simp
    then have "the (Some x) \<in> set (map the (filter (\<lambda>c. c \<noteq> None) col))"
      by (simp only: set_map) (rule imageI)
    then have xs: "x \<in> ?S"
      by (simp only: Cons option.sel)
    have "Min ?S \<le> x" "x \<le> Max ?S"
      using xs by (simp_all del: set_simps)
    then have "x = Min ?S"
      using eq by linarith
    then show ?thesis
      using Some lo hi eq by (simp add: to_float_def)
  qed
  show ?thesis
    unfolding salary_scores_def Let_def
    by (rule map_cong) (simp_all add: cell)
qed

theorem salary_scores_degenerate_witness:
  "column_max [Some 50000, Some 50000] = column_min [Some 50000, Some 50000] \<and>
   salary_scores [Some 50000, Some 50000] = map (\<lambda>c. NaN) [Some 50000, Some (50000::int)]"
proof -
  have h: "column_max [Some 50000, Some 50000] = column_min [Some 50000, Some 50000]"
    by (simp add: column_max_def column_min_def)
  show ?thesis
    using salary_scores_degenerate [OF h] h by simp
qed

text \<open>
  Claim C2 as stated fails: for two equal salaries, and for a single one, the scores are
  NaN and not the constant 0.5.
\<close>

theorem salary_scores_equal_not_half:
  "column_max [Some 50000, Some 50000] = column_min [Some 50000, Some 50000] \<and>
   salary_scores [Some 50000, Some 50000] = [NaN, NaN] \<and>
   Num (1 / 2) \<notin> set (salary_scores [Some 50000, Some 50000]) \<and>
   salary_scores [Some 50000] = [NaN]"
  by (simp add: salary_scores_def column_min_def column_max_def to_float_def Let_def)

section \<open>Sorting\<close>















lemma Num_le [simp]: "Num a \<le> Num b \<longleftrightarrow> a \<le> b"
  by (simp add: less_eq_float64_def)










section \<open>Vectors\<close>








lemma length_normalize [simp]: "length (normalize v) = length v"
  by (simp add: normalize_def Let_def)





















section \<open>The store\<close>

lemma lookup_frame_vectorizer_distinct:
  "lookup h df = Some (Frame f) \<Longrightarrow> lookup h v = Some (Vectorizer vec) \<Longrightarrow> df \<noteq> v"
  by auto

lemma lookup_in_range: "lookup h a = Some ob \<Longrightarrow> a < length h"
  by (simp add: lookup_def split: if_splits)

lemma lookup_update_append:
  "a < length h \<Longrightarrow>
     lookup (h[df := x] @ [y]) a = (if a = df then Some x else lookup h a)"
  by (simp add: lookup_def nth_append)

lemma enhanced_recommendations_result:
  assumes "lookup h df = Some (Frame f)" and "lookup h v = Some (Vectorizer vec)"
    and "those (map required_skills (rows f)) = Some docs"
    and "skill_scores vec q docs = Inr sk"
  shows "enhanced_recommendations argsort h q df v w =
     (Inr (length h),
      h[df := Frame (f\<lparr>salary_score := Some (salary_scores (map salary_min (rows f))),
                       match_score := Some (fst (rank argsort w sk (salary_scores (map salary_min (rows f)))))\<rparr>)] @
      [Frame (take_rows (snd (rank argsort w sk (salary_scores (map salary_min (rows f)))))
         (f\<lparr>salary_score := Some (salary_scores (map salary_min (rows f))),
            match_score := Some (fst (rank argsort w sk (salary_scores (map salary_min (rows f)))))\<rparr>))])"
  using assms by (simp add: enhanced_recommendations_def Let_def alloc_def split_def)

lemma enhanced_recommendations_cases:
  assumes "enhanced_recommendations argsort h q df v w = (r, h')"
  shows "(\<exists>e. r = Inl e \<and> h' = h) \<or>
     (\<exists>f vec docs sk. lookup h df = Some (Frame f) \<and> lookup h v = Some (Vectorizer vec) \<and>
        those (map required_skills (rows f)) = Some docs \<and> skill_scores vec q docs = Inr sk)"
  using assms
  by (auto simp: enhanced_recommendations_def Let_def alloc_def split_def
      split: option.splits obj.splits sum.splits)

lemma page_setup_result:
  "get_vectorizer english loaded = Inr vec \<Longrightarrow>
   page_setup english h loaded sel exps =
     Inr (h @ [Frame (new_frame loaded), Frame (new_frame (filtered_rows sel exps loaded)),
               Vectorizer vec],
          length h, Suc (length h), Suc (Suc (length h)))"
  by (simp add: page_setup_def alloc_def Let_def)

lemma page_setup_error:
  "get_vectorizer english loaded = Inl e \<Longrightarrow> page_setup english h loaded sel exps = Inl e"
  by (simp add: page_setup_def alloc_def Let_def)

lemma fitted_lengths:
  "get_vectorizer english loaded = Inr vec \<Longrightarrow> length (idf vec) = length (vocabulary vec)"
  by (auto simp: get_vectorizer_def fit_def Let_def split: option.splits if_splits)

lemma length_transform_vocabulary:
  "length (idf vec) = length (vocabulary vec) \<Longrightarrow> length (transform vec q) = length (vocabulary vec)"
  by (simp add: transform_def tfidf_row_def normalize_def Let_def)

text \<open>
  Claim C9, as the code has it. A scoring pass writes the columns \<open>salary_score\<close> and
  \<open>match_score\<close> into the frame object it is handed and returns a new, sorted frame;
  every other object of the store, the fitted vectorizer among them, is unchanged, and a
  pass that raises changes nothing. The page hands in a filtered copy, so the loaded
  frame and the objects that existed before the page are unchanged after it.
\<close>

theorem pass_writes_its_frame_only:
  "(enhanced_recommendations argsort h q df v w = (r, h') \<longrightarrow>
      (\<forall>e. r = Inl e \<longrightarrow> h' = h) \<and>
      (\<forall>res. r = Inr res \<longrightarrow>
         res = length h \<and> length h' = Suc (length h) \<and>
         lookup h' v = lookup h v \<and>
         (\<forall>a. a < length h \<and> a \<noteq> df \<longrightarrow> lookup h' a = lookup h a) \<and>
         (\<exists>f sal ms. lookup h df = Some (Frame f) \<and>
            lookup h' df = Some (Frame (f\<lparr>salary_score := Some sal, match_score := Some ms\<rparr>))))) \<and>
   (recommendation_page argsort english h fetched w sel exps q = (Shown res', h'') \<longrightarrow>
      (\<forall>a. a < length h \<longrightarrow> lookup h'' a = lookup h a) \<and>
      lookup h'' (length h) = Some (Frame (new_frame (load_data fetched))))"
proof -
  have pass: "(\<forall>e. r = Inl e \<longrightarrow> h' = h) \<and>
      (\<forall>res. r = Inr res \<longrightarrow>
         res = length h \<and> length h' = Suc (length h) \<and>
         lookup h' v = lookup h v \<and>
         (\<forall>a. a < length h \<and> a \<noteq> df \<longrightarrow> lookup h' a = lookup h a) \<and>
         (\<exists>f sal ms. lookup h df = Some (Frame f) \<and>
            lookup h' df = Some (Frame (f\<lparr>salary_score := Some sal, match_score := Some ms\<rparr>))))"
    if run: "enhanced_recommendations argsort h q df v w = (r, h')"
    for argsort h q df v w r h'
  proof -
    from enhanced_recommendations_cases [OF run]
    show ?thesis
    proof
      assume "\<exists>e. r = Inl e \<and> h' = h"
      then show ?thesis by auto
    next
      assume "\<exists>f vec docs sk. lookup h df = Some (Frame f) \<and> lookup h v = Some (Vectorizer vec) \<and>
        those (map required_skills (rows f)) = Some docs \<and> skill_scores vec q docs = Inr sk"
      then obtain f vec docs sk where p: "lookup h df = Some (Frame f)"
          "lookup h v = Some (Vectorizer vec)"
          "those (map required_skills (rows f)) = Some docs" "skill_scores vec q docs = Inr sk"
        by blast
      let ?sal = "salary_scores (map salary_min (rows f))"
      let ?f2 = "f\<lparr>salary_score := Some ?sal, match_score := Some (fst (rank argsort w sk ?sal))\<rparr>"
      let ?out = "take_rows (snd (rank argsort w sk ?sal)) ?f2"
      have res: "r = Inr (length h)" and h': "h' = h[df := Frame ?f2] @ [Frame ?out]"
        using enhanced_recommendations_result [OF p, of argsort w] run by simp_all
      have dv: "df \<noteq> v"
        using p(1,2) by (rule lookup_frame_vectorizer_distinct)
      have rd: "df < length h" and rv: "v < length h"
        using p(1,2) by (auto dest: lookup_in_range)
      have 1: "lookup h' v = lookup h v"
        using rv dv by (simp add: h' lookup_update_append)
      have 2: "\<forall>a. a < length h \<and> a \<noteq> df \<longrightarrow> lookup h' a = lookup h a"
        by (simp add: h' lookup_update_append)
      have 3: "lookup h' df = Some (Frame ?f2)"
        using rd by (simp add: h' lookup_update_append)
      have 4: "length h' = Suc (length h)"
        by (simp add: h')
      show ?thesis
        using res 1 2 3 4 p(1) by auto
    qed
  qed
  have page: "(\<forall>a. a < length h \<longrightarrow> lookup h'' a = lookup h a) \<and>
      lookup h'' (length h) = Some (Frame (new_frame (load_data fetched)))"
    if run: "recommendation_page argsort english h fetched w sel exps q = (Shown res', h'')"
  proof -
    let ?loaded = "load_data fetched"
    obtain vec where vec: "get_vectorizer english ?loaded = Inr vec"
      using run
      by (cases "get_vectorizer english ?loaded")
         (auto simp: recommendation_page_def Let_def page_setup_error split: if_splits)
    let ?h3 = "h @ [Frame (new_frame ?loaded), Frame (new_frame (filtered_rows sel exps ?loaded)),
               Vectorizer vec]"
    have er: "enhanced_recommendations argsort ?h3 q (Suc (length h)) (Suc (Suc (length h))) w =
        (Inr res', h'')"
      using run vec
      by (auto simp: recommendation_page_def Let_def page_setup_result
          split: if_splits prod.splits sum.splits)
    have keep: "\<forall>a. a < length ?h3 \<and> a \<noteq> Suc (length h) \<longrightarrow> lookup h'' a = lookup ?h3 a"
      using pass [OF er] by blast
    have a: "\<forall>a. a < length h \<longrightarrow> lookup h'' a = lookup h a"
      using keep by (simp add: lookup_def nth_append)
    have b: "lookup h'' (length h) = Some (Frame (new_frame ?loaded))"
      using keep by (simp add: lookup_def nth_append)
    show ?thesis
      using a b by blast
  qed
  show ?thesis
    using pass page by blast
qed

lemma loaded_bc:
  "load_data (Inr [job_b, job_c]) = [with_salary job_b, with_salary job_c]"
  by (simp add: load_data_def dropna_def Let_def job_b_def job_c_def)

lemma heap_0_frame:
  "lookup heap_0 0 = Some (Frame (new_frame [with_salary job_b, with_salary job_c]))"
  by (simp add: heap_0_def lookup_def loaded_bc)

lemma heap_0_vectorizer: "lookup heap_0 1 = Some (Vectorizer vectorizer_0)"
  by (simp add: heap_0_def lookup_def)

lemma heap_0_docs:
  "those (map required_skills (rows (new_frame [with_salary job_b, with_salary job_c]))) =
     Some [''java, spring'', ''python, pandas'']"
  by (simp add: new_frame_def with_salary_def job_b_def job_c_def)

lemma heap_0_scores:
  "skill_scores vectorizer_0 ''java'' [''java, spring'', ''python, pandas''] =
     Inr (cosine_similarity (transform vectorizer_0 ''java'')
            (map (transform vectorizer_0) [''java, spring'', ''python, pandas'']))"
  by (simp add: skill_scores_def vectorizer_0_def)

theorem pass_writes_its_frame_only_witness:
  "fst (enhanced_recommendations stable_argsort heap_0 ''java'' 0 1 weights_0) = Inr 2 \<and>
   lookup (snd (enhanced_recommendations stable_argsort heap_0 ''java'' 0 1 weights_0)) 1 =
     lookup heap_0 1 \<and>
   length (snd (enhanced_recommendations stable_argsort heap_0 ''java'' 0 1 weights_0)) = 3"
proof -
  obtain r h' where run: "enhanced_recommendations stable_argsort heap_0 ''java'' 0 1 weights_0 = (r, h')"
    by (cases "enhanced_recommendations stable_argsort heap_0 ''java'' 0 1 weights_0")
  have r: "r = Inr (length heap_0)"
    using enhanced_recommendations_result [OF heap_0_frame heap_0_vectorizer heap_0_docs heap_0_scores,
        of stable_argsort weights_0] run by simp
  have l: "length heap_0 = 2"
    by (simp add: heap_0_def)
  have "lookup h' 1 = lookup heap_0 1 \<and> length h' = Suc (length heap_0)"
    using pass_writes_its_frame_only [of stable_argsort heap_0 "''java''" 0 1 weights_0 r h'] run r
    by blast
  then show ?thesis
    using run r l by simp
qed

text \<open>
  Claim C9 as stated fails: after a pass over a frame of two rows, the frame object that
  was handed in is no longer what it was.
\<close>

theorem pass_changes_input_frame:
  "fst (enhanced_recommendations stable_argsort heap_0 ''java'' 0 1 weights_0) = Inr 2 \<and>
   lookup heap_0 0 = Some (Frame (new_frame (load_data (Inr [job_b, job_c])))) \<and>
   lookup (snd (enhanced_recommendations stable_argsort heap_0 ''java'' 0 1 weights_0)) 0 \<noteq>
     lookup heap_0 0"
proof -
  let ?f = "new_frame [with_salary job_b, with_salary job_c]"
  let ?sal = "salary_scores (map salary_min (rows ?f))"
  let ?sk = "cosine_similarity (transform vectorizer_0 ''java'')
            (map (transform vectorizer_0) [''java, spring'', ''python, pandas''])"
  let ?f2 = "?f\<lparr>salary_score := Some ?sal, match_score := Some (fst (rank stable_argsort weights_0 ?sk ?sal))\<rparr>"
  have run: "enhanced_recommendations stable_argsort heap_0 ''java'' 0 1 weights_0 =
      (Inr (length heap_0),
       heap_0[0 := Frame ?f2] @ [Frame (take_rows (snd (rank stable_argsort weights_0 ?sk ?sal)) ?f2)])"
    by (rule enhanced_recommendations_result [OF heap_0_frame heap_0_vectorizer heap_0_docs heap_0_scores])
  have l: "length heap_0 = 2"
    by (simp add: heap_0_def)
  have "lookup (heap_0[0 := Frame ?f2] @
      [Frame (take_rows (snd (rank stable_argsort weights_0 ?sk ?sal)) ?f2)]) 0 = Some (Frame ?f2)"
    using l by (simp add: lookup_update_append)
  then have a: "lookup (snd (enhanced_recommendations stable_argsort heap_0 ''java'' 0 1 weights_0)) 0 =
      Some (Frame ?f2)"
    by (simp only: run snd_conv)
  have "salary_score ?f2 \<noteq> salary_score ?f"
    by (simp add: new_frame_def)
  then have "?f2 \<noteq> ?f"
    by metis
  then have c: "lookup (snd (enhanced_recommendations stable_argsort heap_0 ''java'' 0 1 weights_0)) 0 \<noteq>
     lookup heap_0 0"
    by (simp only: a heap_0_frame) simp
  have b: "fst (enhanced_recommendations stable_argsort heap_0 ''java'' 0 1 weights_0) = Inr 2"
    by (simp only: run fst_conv l)
  have d: "lookup heap_0 0 = Some (Frame (new_frame (load_data (Inr [job_b, job_c]))))"
    by (simp only: heap_0_frame loaded_bc)
  show ?thesis
    using b d c by (intro conjI)
qed

text \<open>
  Claim C4, as the code has it. The vectorizer of a page is fitted on the whole loaded
  frame, before the location and experience filters, and this one fit is applied to the
  filtered documents and to the query. Embedding does not refit: every embedded vector
  has the length of the fitted vocabulary, and the vectorizer object is the same after a
  scoring pass.
\<close>

theorem page_vectorizer_fit_on_loaded:
  assumes "page_setup english h loaded sel exps = Inr (h', df, fdf, v)"
  shows "(\<exists>vec. get_vectorizer english loaded = Inr vec \<and> lookup h' v = Some (Vectorizer vec) \<and>
            (\<forall>q. length (transform vec q) = length (vocabulary vec))) \<and>
         lookup h' fdf = Some (Frame (new_frame (filtered_rows sel exps loaded))) \<and>
         (\<forall>argsort q w r h''. enhanced_recommendations argsort h' q fdf v w = (r, h'') \<longrightarrow>
            lookup h'' v = lookup h' v)"
proof -
  obtain vec where vec: "get_vectorizer english loaded = Inr vec"
    using assms by (cases "get_vectorizer english loaded") (simp_all add: page_setup_error)
  have h': "h' = h @ [Frame (new_frame loaded), Frame (new_frame (filtered_rows sel exps loaded)),
               Vectorizer vec]"
    and fdf: "fdf = Suc (length h)" and v: "v = Suc (Suc (length h))"
    using assms page_setup_result [OF vec, of h sel exps] by simp_all
  have 1: "lookup h' v = Some (Vectorizer vec)"
    by (simp add: h' v lookup_def nth_append)
  have 2: "lookup h' fdf = Some (Frame (new_frame (filtered_rows sel exps loaded)))"
    by (simp add: h' fdf lookup_def nth_append)
  have 3: "\<forall>q. length (transform vec q) = length (vocabulary vec)"
    using fitted_lengths [OF vec] by (simp add: length_transform_vocabulary)
  have 4: "lookup h'' v = lookup h' v"
    if run: "enhanced_recommendations argsort h' q fdf v w = (r, h'')" for argsort q w r h''
  proof -
    from enhanced_recommendations_cases [OF run]
    show ?thesis
    proof
      assume "\<exists>e. r = Inl e \<and> h'' = h'"
      then show ?thesis by auto
    next
      assume "\<exists>f vec docs sk. lookup h' fdf = Some (Frame f) \<and> lookup h' v = Some (Vectorizer vec) \<and>
        those (map required_skills (rows f)) = Some docs \<and> skill_scores vec q docs = Inr sk"
      then obtain f vec' docs sk where p: "lookup h' fdf = Some (Frame f)"
          "lookup h' v = Some (Vectorizer vec')"
          "those (map required_skills (rows f)) = Some docs" "skill_scores vec' q docs = Inr sk"
        by blast
      have "v < length h'" "fdf \<noteq> v"
        using p(1,2) by (auto dest: lookup_in_range)
      then show ?thesis
        using enhanced_recommendations_result [OF p, of argsort w] run
        by (auto simp: lookup_update_append)
    qed
  qed
  show ?thesis
    using vec 1 2 3 4 by blast
qed

lemma loaded_abc_full:
  "load_data (Inr [job_a, job_b, job_c]) = [with_salary job_a, with_salary job_b, with_salary job_c]"
  by (simp add: load_data_def dropna_def Let_def job_a_def job_b_def job_c_def)

lemmas token_defs = analyze_def findall_tokens_def findall_runs.simps is_word_char_def
  is_digit_def to_lower_def

lemma tokens_a: "analyze [''and''] ''python, sql'' = [''python'', ''sql'']"
  by (simp add: token_defs)

lemma tokens_b: "analyze [''and''] ''java, spring'' = [''java'', ''spring'']"
  by (simp add: token_defs)

lemma tokens_c: "analyze [''and''] ''python, pandas'' = [''python'', ''pandas'']"
  by (simp add: token_defs)

lemma vocabulary_abc:
  "fitted_vocabulary (fit [''and''] [''python, sql'', ''java, spring'', ''python, pandas'']) =
     Some [''java'', ''pandas'', ''python'', ''spring'', ''sql'']"
  by (simp add: fitted_vocabulary_def fit_def Let_def tokens_a tokens_b tokens_c)

lemma vocabulary_b:
  "fitted_vocabulary (fit [''and''] [''java, spring'']) = Some [''java'', ''spring'']"
  by (simp add: fitted_vocabulary_def fit_def Let_def tokens_b)

lemma filtered_leeds:
  "filtered_rows ''Leeds'' [] [with_salary job_a, with_salary job_b, with_salary job_c] =
     [with_salary job_b]"
  by (simp add: filtered_rows_def filter_location_def filter_experience_def with_salary_def
      job_a_def job_b_def job_c_def)

lemma docs_abc:
  "those (map required_skills [with_salary job_a, with_salary job_b, with_salary job_c]) =
     Some [''python, sql'', ''java, spring'', ''python, pandas'']"
  by (simp add: with_salary_def job_a_def job_b_def job_c_def)

lemma docs_b: "those (map required_skills [with_salary job_b]) = Some [''java, spring'']"
  by (simp add: with_salary_def job_b_def)

lemma skills_b: "required_skills (with_salary job_b) = Some ''java, spring''"
  by (simp add: with_salary_def job_b_def)

lemma fitted_vocabulary_Some:
  "fitted_vocabulary r = Some voc \<Longrightarrow> \<exists>vec. r = Inr vec \<and> vocabulary vec = voc"
  by (cases r) (simp_all add: fitted_vocabulary_def)

theorem page_vectorizer_fit_on_loaded_witness:
  "\<exists>h' df fdf v.
     page_setup [''and''] [] (load_data (Inr [job_a, job_b, job_c])) ''Leeds'' [] = Inr (h', df, fdf, v) \<and>
     lookup h' fdf =
       Some (Frame (new_frame (filtered_rows ''Leeds'' [] (load_data (Inr [job_a, job_b, job_c]))))) \<and>
     (\<exists>vec. get_vectorizer [''and''] (load_data (Inr [job_a, job_b, job_c])) = Inr vec \<and>
        lookup h' v = Some (Vectorizer vec))"
proof -
  let ?loaded = "load_data (Inr [job_a, job_b, job_c])"
  have "fitted_vocabulary (get_vectorizer [''and''] ?loaded) =
      Some [''java'', ''pandas'', ''python'', ''spring'', ''sql'']"
    by (simp only: get_vectorizer_def loaded_abc_full docs_abc option.case vocabulary_abc)
  then obtain vec where vec: "get_vectorizer [''and''] ?loaded = Inr vec"
    using fitted_vocabulary_Some by blast
  have run: "page_setup [''and''] [] ?loaded ''Leeds'' [] =
      Inr ([] @ [Frame (new_frame ?loaded), Frame (new_frame (filtered_rows ''Leeds'' [] ?loaded)),
                 Vectorizer vec],
           length ([] :: heap), Suc (length ([] :: heap)), Suc (Suc (length ([] :: heap))))"
    using vec by (rule page_setup_result)
  show ?thesis
    using page_vectorizer_fit_on_loaded [OF run] run by blast
qed

text \<open>
  Claim C4 as stated fails: with the location filter set to Leeds the filtered corpus is
  one document of three, and the vocabulary of the page's vectorizer is that of the
  three loaded documents, not the vocabulary of a fit on the filtered corpus.
\<close>

theorem page_vectorizer_not_fit_on_filtered:
  "page_corpus (page_setup [''and''] [] (load_data (Inr [job_a, job_b, job_c])) ''Leeds'' []) =
     Some [Some ''java, spring''] \<and>
   page_vocabulary (page_setup [''and''] [] (load_data (Inr [job_a, job_b, job_c])) ''Leeds'' []) =
     Some [''java'', ''pandas'', ''python'', ''spring'', ''sql''] \<and>
   fitted_vocabulary
     (get_vectorizer [''and''] (filtered_rows ''Leeds'' [] (load_data (Inr [job_a, job_b, job_c])))) =
     Some [''java'', ''spring'']"
proof -
  let ?loaded = "[with_salary job_a, with_salary job_b, with_salary job_c]"
  have fv: "fitted_vocabulary (get_vectorizer [''and''] ?loaded) =
      Some [''java'', ''pandas'', ''python'', ''spring'', ''sql'']"
    by (simp only: get_vectorizer_def docs_abc option.case vocabulary_abc)
  then obtain vec where vec: "get_vectorizer [''and''] ?loaded = Inr vec"
    and voc: "vocabulary vec = [''java'', ''pandas'', ''python'', ''spring'', ''sql'']"
    using fitted_vocabulary_Some by blast
  have run: "page_setup [''and''] [] ?loaded ''Leeds'' [] =
      Inr ([] @ [Frame (new_frame ?loaded), Frame (new_frame (filtered_rows ''Leeds'' [] ?loaded)),
                 Vectorizer vec],
           length ([] :: heap), Suc (length ([] :: heap)), Suc (Suc (length ([] :: heap))))"
    using vec by (rule page_setup_result)
  have a: "page_corpus (page_setup [''and''] [] ?loaded ''Leeds'' []) = Some [Some ''java, spring'']"
    by (simp add: run page_corpus_def lookup_def filtered_leeds new_frame_def skills_b)
  have b: "page_vocabulary (page_setup [''and''] [] ?loaded ''Leeds'' []) =
      Some [''java'', ''pandas'', ''python'', ''spring'', ''sql'']"
    by (simp add: run page_vocabulary_def lookup_def voc)
  have c: "fitted_vocabulary (get_vectorizer [''and''] (filtered_rows ''Leeds'' [] ?loaded)) =
      Some [''java'', ''spring'']"
    by (simp only: filtered_leeds get_vectorizer_def docs_b option.case vocabulary_b)
  show ?thesis
    using a b c by (simp only: loaded_abc_full)
qed

end
